theory Spec2Isabelle
  imports Main "HOL-Library.List_Lexorder" "HOL-Library.Char_ord"
begin

section \<open>Go values shared by the models\<close>

text \<open>
  A Go call either returns or panics. Every function of the source that can dereference
  a nil pointer or call a method on a nil interface is given the result type
  \<open>'a outcome\<close>, so that a panic is a value of the model and not an unspecified term.
  Go's \<open>error\<close> is represented by its message.
\<close>

datatype 'a outcome = Returned 'a | Panicked string

type_synonym error = string

definition nil_deref :: string where
  "nil_deref = ''runtime error: invalid memory address or nil pointer dereference''"

section \<open>Kind Watcher handlers (internal/overview/overview.go, lines 69-84)\<close>

text \<open>
  \<open>*unstructured.Unstructured\<close> is a pointer: \<open>None\<close> is nil. Only the object's name is
  read by the handlers. \<open>object.GetName()\<close> reads a field through the pointer, which
  panics on nil; \<open>GetName_ptr\<close> is that call.
\<close>

record Unstructured =
  GetName :: string

definition GetName_ptr :: "Unstructured option \<Rightarrow> string outcome" where
  "GetName_ptr object =
     (case object of None \<Rightarrow> Panicked nil_deref | Some u \<Rightarrow> Returned (GetName u))"

text \<open>
  \<open>crdAddFunc\<close> and \<open>crdDeleteFunc\<close> are closures over the path matcher \<open>pm\<close> and the
  section describer \<open>csd\<close>; the state \<open>'s\<close> stands for what these two pointers refer to.
  \<open>addCRD\<close> and \<open>deleteCRD\<close> are not in this file of the source: the handlers take them
  as parameters, applied to the name and the state.

  \<^verbatim>\<open>
  func(ctx context.Context, object *unstructured.Unstructured) {
      if object == nil {
          return
      }
      addCRD(ctx, object.GetName(), pm, csd)
  }
  \<close>
\<close>

definition crdAddFunc ::
  "(string \<Rightarrow> 's \<Rightarrow> 's) \<Rightarrow> Unstructured option \<Rightarrow> 's \<Rightarrow> 's outcome" where
  "crdAddFunc addCRD object s =
     (if object = None then Returned s
      else (case GetName_ptr object of
              Panicked m \<Rightarrow> Panicked m
            | Returned name \<Rightarrow> Returned (addCRD name s)))"

definition crdDeleteFunc ::
  "(string \<Rightarrow> 's \<Rightarrow> 's) \<Rightarrow> Unstructured option \<Rightarrow> 's \<Rightarrow> 's outcome" where
  "crdDeleteFunc deleteCRD object s =
     (if object = None then Returned s
      else (case GetName_ptr object of
              Panicked m \<Rightarrow> Panicked m
            | Returned name \<Rightarrow> Returned (deleteCRD name s)))"

text \<open>
  A recording registry: the state is the list of registry operations called so far.
  Instantiating the handlers' parameters with \<open>record_addCRD\<close> and \<open>record_deleteCRD\<close>
  shows which calls a handler makes, in order.
\<close>

datatype registry_call = CallAddCRD string | CallDeleteCRD string

definition record_addCRD :: "string \<Rightarrow> registry_call list \<Rightarrow> registry_call list" where
  "record_addCRD name calls = calls @ [CallAddCRD name]"

definition record_deleteCRD :: "string \<Rightarrow> registry_call list \<Rightarrow> registry_call list" where
  "record_deleteCRD name calls = calls @ [CallDeleteCRD name]"

section \<open>Path matcher and CRD registration\<close>

text \<open>
  overview.go uses the path matcher (\<open>newPathMatcher\<close>, \<open>Register\<close>), the type
  \<open>pathFilter\<close>, \<open>addCRD\<close>, \<open>deleteCRD\<close> and \<open>watchCRDs\<close>, which are defined
  elsewhere in the repository, in files that are not at hand. The definitions of this
  section follow the spec's sections 3, 4.2 and 4.3 instead.
\<close>

text \<open>
  Modelled from the spec: the type \<open>pathFilter\<close>, the spec's PathPattern: "a string
  pattern (possibly containing a prefix wildcard) plus an associated opaque handler
  reference and an associated opaque deletion key used to later remove exactly the
  registrations that were added for that key". The handler reference is the type
  parameter \<open>'h\<close>.
\<close>

record 'h pathFilter =
  path :: string
  describer :: 'h
  dereg_key :: string

text \<open>
  Modelled from the spec: the path matcher, "an ordered collection of (path-pattern to
  handler) registrations": the list of its registrations in insertion order, empty
  when new.
\<close>

type_synonym 'h pathMatcher = "'h pathFilter list"

definition newPathMatcher :: "'h pathMatcher" where
  "newPathMatcher = []"

text \<open>
  Modelled from the spec: \<open>pathMatcher.Register\<close>, the spec's register; the
  registration is added at the end of the insertion order.
\<close>

definition Register :: "'h pathFilter \<Rightarrow> 'h pathMatcher \<Rightarrow> 'h pathMatcher" where
  "Register pf pm = pm @ [pf]"

text \<open>
  Modelled from the spec: \<open>pathMatcher.Deregister\<close>, the spec's deregister; it removes
  exactly the registrations that carry the deletion key.
\<close>

definition Deregister :: "string \<Rightarrow> 'h pathMatcher \<Rightarrow> 'h pathMatcher" where
  "Deregister key pm = filter (\<lambda>pf. dereg_key pf \<noteq> key) pm"

text \<open>The registrations a path matcher holds for a name, and whether it holds one.\<close>

definition registrations :: "string \<Rightarrow> 'h pathMatcher \<Rightarrow> 'h pathFilter list" where
  "registrations name pm = filter (\<lambda>pf. dereg_key pf = name) pm"

definition registered :: "string \<Rightarrow> 'h pathMatcher \<Rightarrow> bool" where
  "registered name pm = (registrations name pm \<noteq> [])"

text \<open>
  Modelled from the spec: \<open>addCRD\<close>, the spec's add-for-name, an "idempotent add, keyed by
  name": "adding for a name already present is a no-op or idempotent replace, never a
  duplicate entry" (the model takes the no-op). The pattern and the handler registered
  for a name are given by the parameter \<open>crd\<close>; the deletion key is the name.
\<close>

definition crdFilter :: "(string \<Rightarrow> string \<times> 'h) \<Rightarrow> string \<Rightarrow> 'h pathFilter" where
  "crdFilter crd name =
     \<lparr>path = fst (crd name), describer = snd (crd name), dereg_key = name\<rparr>"

definition addCRD ::
  "(string \<Rightarrow> string \<times> 'h) \<Rightarrow> string \<Rightarrow> 'h pathMatcher \<Rightarrow> 'h pathMatcher" where
  "addCRD crd name pm =
     (if registered name pm then pm else Register (crdFilter crd name) pm)"

text \<open>
  Modelled from the spec: \<open>deleteCRD\<close>, the spec's remove-for-name; it removes the
  registrations added for the name, and "a Deleted event for a name not currently
  registered is a safe no-op".
\<close>

definition deleteCRD :: "string \<Rightarrow> 'h pathMatcher \<Rightarrow> 'h pathMatcher" where
  "deleteCRD name pm = Deregister name pm"

text \<open>
  Modelled from the spec: \<open>watchCRDs\<close>, the loop of the Kind Watcher. It is given the
  two handlers and passes each event, in delivery order, to the add handler when it is
  Added and to the delete handler when it is Deleted; a handler that panics ends it.
  The list is the sequence of events delivered.
\<close>

datatype WatchEvent = Added "Unstructured option" | Deleted "Unstructured option"

fun watchCRDs ::
  "(Unstructured option \<Rightarrow> 's \<Rightarrow> 's outcome) \<Rightarrow> (Unstructured option \<Rightarrow> 's \<Rightarrow> 's outcome)
   \<Rightarrow> WatchEvent list \<Rightarrow> 's \<Rightarrow> 's outcome" where
  "watchCRDs addFunc deleteFunc [] s = Returned s"
| "watchCRDs addFunc deleteFunc (Added object # es) s =
     (case addFunc object s of
        Panicked m \<Rightarrow> Panicked m
      | Returned s' \<Rightarrow> watchCRDs addFunc deleteFunc es s')"
| "watchCRDs addFunc deleteFunc (Deleted object # es) s =
     (case deleteFunc object s of
        Panicked m \<Rightarrow> Panicked m
      | Returned s' \<Rightarrow> watchCRDs addFunc deleteFunc es s')"

text \<open>
  The Kind Watcher as the constructor wires it: \<open>watchCRDs\<close> with the two closures of
  overview.go, over \<open>addCRD\<close> and \<open>deleteCRD\<close>, on the path matcher.
\<close>

definition kindWatcher ::
  "(string \<Rightarrow> string \<times> 'h) \<Rightarrow> WatchEvent list \<Rightarrow> 'h pathMatcher \<Rightarrow> 'h pathMatcher outcome" where
  "kindWatcher crd es pm =
     watchCRDs (crdAddFunc (addCRD crd)) (crdDeleteFunc deleteCRD) es pm"

text \<open>An event for the name \<open>n\<close>: its object is not nil and is named \<open>n\<close>.\<close>

fun event_for :: "string \<Rightarrow> WatchEvent \<Rightarrow> bool" where
  "event_for n (Added object) = (case object of None \<Rightarrow> False | Some u \<Rightarrow> GetName u = n)"
| "event_for n (Deleted object) = (case object of None \<Rightarrow> False | Some u \<Rightarrow> GetName u = n)"

fun is_Added :: "WatchEvent \<Rightarrow> bool" where
  "is_Added (Added object) = True"
| "is_Added (Deleted object) = False"

definition last_is_Added :: "WatchEvent list \<Rightarrow> bool" where
  "last_is_Added es = (case rev es of [] \<Rightarrow> False | e # _ \<Rightarrow> is_Added e)"

section \<open>ClusterOverview (internal/overview/overview.go)\<close>

text \<open>
  Values the constructor only passes on (logger, cache, plugin manager, discovery client,
  REST client, REST config, label selector) are opaque: each is represented by a label.
  \<open>cluster.ClientInterface\<close> is an interface; the model is the record of what its three
  methods return. A nil interface or nil pointer is \<open>None\<close>.
\<close>

type_synonym logger = string
type_synonym cache = string
type_synonym pluginManager = string
type_synonym discovery = string
type_synonym restClient = string
type_synonym restConfig = string
type_synonym selector = string

record ClientInterface =
  DiscoveryClient :: "error + discovery"
  RESTClient :: "error + restClient"
  RESTConfig :: restConfig

record Options =
  Client :: "ClientInterface option"
  Cache :: cache
  Namespace :: string
  Logger :: logger
  PluginManager :: "pluginManager option"

text \<open>
  \<open>portforward.ServiceOptions\<close> as the constructor fills it; its \<open>PortForwarder\<close> field is
  the constant default forwarder on the process's standard streams and is left out.
  \<open>portforward.New\<close> is not in the source: the service it returns is the uninterpreted
  term \<open>PortForwardService pfOpts logger\<close>.
\<close>

record ServiceOptions =
  so_RESTClient :: restClient
  so_Config :: restConfig
  so_Cache :: cache

datatype PortForwarder = PortForwardService ServiceOptions logger

record 'g ClusterOverview =
  client :: "ClientInterface option"
  logger :: logger
  cache :: cache
  generator :: 'g
  portForwardSvc :: "PortForwarder option"
  pluginManager :: "pluginManager option"

text \<open>
  What the constructor does besides computing its result, in program order: each
  \<open>pm.Register\<close>, the \<open>go watchCRDs(...)\<close> statement (with the cache it watches and the
  content of the path matcher at that moment) and the call of \<open>portforward.New\<close>.
\<close>

datatype 'h effect =
    EffRegister "'h pathFilter"
  | EffGoWatchCRDs cache "'h pathMatcher"
  | EffPortforwardNew ServiceOptions logger

text \<open>
  \<^verbatim>\<open>for _, pf := range d.PathFilters() { pm.Register(ctx, pf) }\<close>
  on the pair of the effects so far and the path matcher.
\<close>

definition register_all ::
  "'h pathFilter list \<Rightarrow> 'h effect list \<times> 'h pathMatcher \<Rightarrow> 'h effect list \<times> 'h pathMatcher" where
  "register_all pfs w = fold (\<lambda>pf (tr, pm). (tr @ [EffRegister pf], Register pf pm)) pfs w"

text \<open>
  \<open>NewClusterOverview\<close>. The parameters \<open>rootPFs\<close> and \<open>eventsPFs\<close> are
  \<open>rootDescriber.PathFilters()\<close> and \<open>eventsDescriber.PathFilters()\<close>, and \<open>newGenerator\<close>
  is the function of that name; none of them is in the source. The path matcher is a
  pointer shared with the watcher; \<open>newGenerator\<close> is given its content at the time of
  the call. The result is the list of effects and Go's \<open>(*ClusterOverview, error)\<close>:
  \<open>Inl err\<close> is \<open>(nil, err)\<close>. \<open>errors.Wrap(err, msg)\<close> is the message \<open>msg: err\<close>.
\<close>

definition NewClusterOverview ::
  "'h pathFilter list \<Rightarrow> 'h pathFilter list
   \<Rightarrow> (cache \<Rightarrow> discovery \<Rightarrow> 'h pathMatcher \<Rightarrow> ClientInterface \<Rightarrow> PortForwarder \<Rightarrow> error + 'g)
   \<Rightarrow> Options \<Rightarrow> 'h effect list \<times> (error + 'g ClusterOverview)" where
  "NewClusterOverview rootPFs eventsPFs newGenerator options =
     (case Client options of
        None \<Rightarrow> ([], Inl ''nil cluster client'')
      | Some c \<Rightarrow>
          (case PluginManager options of
             None \<Rightarrow> ([], Inl ''plugin manager is nil'')
           | Some plugins \<Rightarrow>
               (case DiscoveryClient c of
                  Inl err \<Rightarrow> ([], Inl (''creating DiscoveryClient: '' @ err))
                | Inr di \<Rightarrow>
                    (let (tr, pm) = register_all rootPFs ([], newPathMatcher);
                         (tr, pm) = register_all eventsPFs (tr, pm);
                         tr = tr @ [EffGoWatchCRDs (Cache options) pm]
                     in (case RESTClient c of
                           Inl err \<Rightarrow> (tr, Inl (''fetching RESTClient: '' @ err))
                         | Inr rc \<Rightarrow>
                             (let pfOpts = \<lparr>so_RESTClient = rc, so_Config = RESTConfig c,
                                            so_Cache = Cache options\<rparr>;
                                  pfSvc = PortForwardService pfOpts (Logger options);
                                  tr = tr @ [EffPortforwardNew pfOpts (Logger options)]
                              in (case newGenerator (Cache options) di pm c pfSvc of
                                    Inl err \<Rightarrow> (tr, Inl (''create overview generator: '' @ err))
                                  | Inr g \<Rightarrow>
                                      (tr, Inr \<lparr>client = Some c, logger = Logger options,
                                                cache = Cache options, generator = g,
                                                portForwardSvc = Some pfSvc,
                                                pluginManager = Some plugins\<rparr>))))))))"

fun is_EffRegister :: "'h effect \<Rightarrow> bool" where
  "is_EffRegister (EffRegister pf) = True"
| "is_EffRegister (EffGoWatchCRDs c pm) = False"
| "is_EffRegister (EffPortforwardNew opts lg) = False"

fun is_EffGoWatchCRDs :: "'h effect \<Rightarrow> bool" where
  "is_EffGoWatchCRDs (EffRegister pf) = False"
| "is_EffGoWatchCRDs (EffGoWatchCRDs c pm) = True"
| "is_EffGoWatchCRDs (EffPortforwardNew opts lg) = False"

subsection \<open>Content\<close>

text \<open>
  \<open>context.Context\<close> is the type \<open>context_t\<close>. \<open>log.WithLoggerContext\<close> is not in the
  source: the context it returns is the uninterpreted term
  \<open>WithLoggerContext ctx logger\<close>. \<open>Generate\<close>, the method of the generator, is a
  parameter; it acts on a world \<open>'w\<close> and returns Go's
  \<open>(component.ContentResponse, error)\<close> as \<open>'r\<close>.
\<close>

datatype context_t = Background | WithLoggerContext context_t logger

record ContentOptions =
  Selector :: selector

record GeneratorOptions =
  go_Selector :: selector
  go_PortForwardSvc :: "PortForwarder option"
  go_PluginManager :: "pluginManager option"

definition Content ::
  "('g \<Rightarrow> context_t \<Rightarrow> string \<Rightarrow> string \<Rightarrow> string \<Rightarrow> GeneratorOptions \<Rightarrow> 'w \<Rightarrow> 'r \<times> 'w)
   \<Rightarrow> 'g ClusterOverview \<Rightarrow> context_t \<Rightarrow> string \<Rightarrow> string \<Rightarrow> string \<Rightarrow> ContentOptions
   \<Rightarrow> 'w \<Rightarrow> 'r \<times> 'w" where
  "Content Generate co ctx contentPath prefix namespace opts w =
     (let ctx = WithLoggerContext ctx (logger co);
          genOpts = \<lparr>go_Selector = Selector opts,
                     go_PortForwardSvc = portForwardSvc co,
                     go_PluginManager = pluginManager co\<rparr>
      in Generate (generator co) ctx contentPath prefix namespace genOpts w)"

text \<open>A recording generator: the world is the list of calls of \<open>Generate\<close> made so far.\<close>

datatype generate_call = CallGenerate string string string selector

definition record_Generate ::
  "'g \<Rightarrow> context_t \<Rightarrow> string \<Rightarrow> string \<Rightarrow> string \<Rightarrow> GeneratorOptions
   \<Rightarrow> generate_call list \<Rightarrow> unit \<times> generate_call list" where
  "record_Generate g ctx contentPath prefix namespace genOpts calls =
     ((), calls @ [CallGenerate contentPath prefix namespace (go_Selector genOpts)])"

subsection \<open>HTTP handlers\<close>

text \<open>
  A request as the handlers read it: the method, the body, the route variables of
  \<open>mux.Vars(r)\<close> and the request's context. Reading a missing key of the Go map gives
  the empty string.
\<close>

record Request =
  Method :: string
  Body :: string
  Vars :: "(string \<times> string) list"
  RequestContext :: context_t

definition vars_get :: "Request \<Rightarrow> string \<Rightarrow> string" where
  "vars_get r key = (case map_of (Vars r) key of None \<Rightarrow> [] | Some v \<Rightarrow> v)"

text \<open>
  What the handlers call acts on a world \<open>'w\<close> (the response writer, the log, the
  port-forward service). None of these functions is in the source; the handlers take
  them as the fields of \<open>handlerDeps\<close>: \<open>logger.Errorf\<close>, \<open>http.Error\<close>,
  \<open>api.RespondWithError\<close>, \<open>createPortforward\<close>, \<open>deletePortForward\<close> (each returning
  its error, \<open>None\<close> for nil), \<open>handlePortforwardError\<close>, \<open>r.Body.Close\<close> and the
  handler that \<open>containerLogsHandler\<close> returns.
\<close>

record 'w handlerDeps =
  Errorf :: "logger \<Rightarrow> string \<Rightarrow> 'w \<Rightarrow> 'w"
  http_Error :: "string \<Rightarrow> nat \<Rightarrow> 'w \<Rightarrow> 'w"
  RespondWithError :: "nat \<Rightarrow> string \<Rightarrow> logger \<Rightarrow> 'w \<Rightarrow> 'w"
  createPortforward :: "context_t \<Rightarrow> string \<Rightarrow> PortForwarder \<Rightarrow> 'w \<Rightarrow> error option \<times> 'w"
  deletePortForward :: "context_t \<Rightarrow> string \<Rightarrow> PortForwarder \<Rightarrow> 'w \<Rightarrow> error option \<times> 'w"
  handlePortforwardError :: "error option \<Rightarrow> logger \<Rightarrow> 'w \<Rightarrow> 'w"
  Body_Close :: "'w \<Rightarrow> 'w"
  containerLogsHandler :: "ClientInterface option \<Rightarrow> Request \<Rightarrow> 'w \<Rightarrow> 'w"

definition StatusInternalServerError :: nat where
  "StatusInternalServerError = 500"

definition StatusNotFound :: nat where
  "StatusNotFound = 404"

definition MethodPost :: string where
  "MethodPost = ''POST''"

definition MethodDelete :: string where
  "MethodDelete = ''DELETE''"

text \<open>
  \<open>portForwardsHandler\<close>: \<open>defer r.Body.Close()\<close> is reached only when the service is
  not nil, and runs when the handler returns.
\<close>

definition portForwardsHandler ::
  "'w handlerDeps \<Rightarrow> 'g ClusterOverview \<Rightarrow> Request \<Rightarrow> 'w \<Rightarrow> 'w" where
  "portForwardsHandler D co r w =
     (case portForwardSvc co of
        None \<Rightarrow>
          (let w = Errorf D (logger co) ''port forward service is nil'' w
           in http_Error D ''portforward service is nil'' StatusInternalServerError w)
      | Some svc \<Rightarrow>
          (let ctx = WithLoggerContext (RequestContext r) (logger co);
               w = (if Method r = MethodPost then
                      (let (err, w) = createPortforward D ctx (Body r) svc w
                       in handlePortforwardError D err (logger co) w)
                    else RespondWithError D StatusNotFound
                           (''unhandled HTTP method '' @ Method r) (logger co) w)
           in Body_Close D w))"

definition portForwardHandler ::
  "'w handlerDeps \<Rightarrow> 'g ClusterOverview \<Rightarrow> Request \<Rightarrow> 'w \<Rightarrow> 'w" where
  "portForwardHandler D co r w =
     (case portForwardSvc co of
        None \<Rightarrow>
          (let w = Errorf D (logger co) ''port forward service is nil'' w
           in http_Error D ''portforward service is nil'' StatusInternalServerError w)
      | Some svc \<Rightarrow>
          (let id = vars_get r ''id'';
               ctx = WithLoggerContext (RequestContext r) (logger co)
           in if Method r = MethodDelete then
                (let (err, w) = deletePortForward D ctx id svc w
                 in handlePortforwardError D err (logger co) w)
              else RespondWithError D StatusNotFound
                     (''unhandled HTTP method '' @ Method r) (logger co) w))"

text \<open>\<open>Handlers\<close> returns a Go map literal with three distinct keys: an association list.\<close>

definition Handlers ::
  "'w handlerDeps \<Rightarrow> 'g ClusterOverview \<Rightarrow> (string \<times> (Request \<Rightarrow> 'w \<Rightarrow> 'w)) list" where
  "Handlers D co =
     [(''/logs/pod/{pod}/container/{container}'', containerLogsHandler D (client co)),
      (''/port-forwards'', portForwardsHandler D co),
      (''/port-forwards/{id}'', portForwardHandler D co)]"

text \<open>
  Recording dependencies: the world is the list of calls made so far. \<open>createPortforward\<close>
  and \<open>deletePortForward\<close> return the errors \<open>cerr\<close> and \<open>derr\<close>.
\<close>

datatype http_call =
    CallErrorf logger string
  | CallHttpError string nat
  | CallRespondWithError nat string logger
  | CallCreatePortforward context_t string PortForwarder
  | CallDeletePortForward context_t string PortForwarder
  | CallHandlePortforwardError "error option" logger
  | CallBodyClose
  | CallContainerLogs

definition recording_deps :: "error option \<Rightarrow> error option \<Rightarrow> (http_call list) handlerDeps" where
  "recording_deps cerr derr =
     \<lparr>Errorf = (\<lambda>lg msg w. w @ [CallErrorf lg msg]),
      http_Error = (\<lambda>msg code w. w @ [CallHttpError msg code]),
      RespondWithError = (\<lambda>code msg lg w. w @ [CallRespondWithError code msg lg]),
      createPortforward = (\<lambda>ctx body svc w. (cerr, w @ [CallCreatePortforward ctx body svc])),
      deletePortForward = (\<lambda>ctx id svc w. (derr, w @ [CallDeletePortForward ctx id svc])),
      handlePortforwardError = (\<lambda>err lg w. w @ [CallHandlePortforwardError err lg]),
      Body_Close = (\<lambda>w. w @ [CallBodyClose]),
      containerLogsHandler = (\<lambda>cl r w. w @ [CallContainerLogs])\<rparr>"

section \<open>Loading a kube config (FSLoader.Load, in internal/event/context.go)\<close>

text \<open>
  \<open>clientcmd.NewClientConfigFromBytes\<close> and the \<open>ClientConfig\<close> it returns belong to the
  Kubernetes client library. The model takes the function as a parameter returning Go's
  pair \<open>(ClientConfig, error)\<close>, the interface value being \<open>None\<close> when nil; a
  \<open>ClientConfig\<close> is the record of what its method \<open>RawConfig\<close> returns. Of the raw config
  only the keys of the map \<open>Contexts\<close>, in the order the \<open>range\<close> loop visits them, and
  \<open>CurrentContext\<close> are read. Strings are compared bytewise, as Go does.
\<close>

record Context =
  Name :: string

record KubeConfig =
  Contexts :: "Context list"
  CurrentContext :: string

record rawConfig =
  cfg_Contexts :: "string list"
  cfg_CurrentContext :: string

record ClientConfig =
  RawConfig :: "rawConfig \<times> error option"

text \<open>
  \<^verbatim>\<open>
  cc, err := clientcmd.NewClientConfigFromBytes([]byte(content))
  config, err := cc.RawConfig()
  if err != nil {
      return nil, err
  }
  \<close>
  The first \<open>err\<close> is overwritten before it is read, and \<open>cc.RawConfig()\<close> is a method
  call on an interface value: on a nil interface it panics.
\<close>

definition Load ::
  "(string \<Rightarrow> ClientConfig option \<times> error option) \<Rightarrow> string \<Rightarrow> (error + KubeConfig) outcome" where
  "Load NewClientConfigFromBytes content =
     (let (cc, err) = NewClientConfigFromBytes content
      in (case cc of
            None \<Rightarrow> Panicked nil_deref
          | Some c \<Rightarrow>
              (let (config, err) = RawConfig c
               in (case err of
                     Some e \<Rightarrow> Returned (Inl e)
                   | None \<Rightarrow>
                       (let list = map (\<lambda>name. \<lparr>Name = name\<rparr>) (cfg_Contexts config);
                            list = sort_key Name list
                        in Returned (Inr \<lparr>Contexts = list,
                                          CurrentContext = cfg_CurrentContext config\<rparr>))))))"

text \<open>
  A stand-in for the library function, for evaluation at two contents where it agrees
  with the library: the empty content, which the library accepts as an empty config,
  and \<open>{\<close>, which does not decode, so that the library returns a nil \<open>ClientConfig\<close>
  and an error. At other contents the stand-in is not the library (it rejects every
  content that is not empty).
\<close>

definition parse_example :: "string \<Rightarrow> ClientConfig option \<times> error option" where
  "parse_example content =
     (if content = [] then
        (Some \<lparr>RawConfig = (\<lparr>cfg_Contexts = [], cfg_CurrentContext = []\<rparr>, None)\<rparr>, None)
      else (None, Some ''error decoding the kube config''))"

section \<open>Session Manager (port-forward service)\<close>

text \<open>
  The handlers of overview.go pass session requests to \<open>createPortforward\<close> and
  \<open>deletePortForward\<close> and through them to the port-forward service. The two
  functions and the service are defined elsewhere in the repository, in files that are
  not at hand; the definitions of this section follow the spec's sections 3, 4.4 and 7.
\<close>

text \<open>
  Modelled from the spec: the states of a session, "Requested, Running, Failed, Stopped",
  and the two errors of the spec's taxonomy that the operations of the manager return.
\<close>

datatype status = Requested | Running | Failed | Stopped

datatype sm_error = NotFound | InvalidTarget

text \<open>
  Modelled from the spec: the target descriptor of a create request. The spec's scenario
  gives it a namespace, a pod, a container and a port, and calls a descriptor malformed
  when pod, container or port is missing.
\<close>

record target =
  t_namespace :: string
  t_pod :: "string option"
  t_container :: "string option"
  t_port :: "nat option"

definition malformed :: "target \<Rightarrow> bool" where
  "malformed t = (t_pod t = None \<or> t_container t = None \<or> t_port t = None)"

text \<open>
  Modelled from the spec: a session has an identity generated at creation and unique
  for the process lifetime (a counter), its target, a status and a creation timestamp.
  The manager owns the session table, the set of sessions whose underlying tunnel task
  holds resources, and the next identity.
\<close>

record session =
  sess_id :: nat
  sess_target :: target
  sess_status :: status
  sess_created :: nat

record manager =
  sessions :: "nat \<rightharpoonup> session"
  tunnels :: "nat set"
  next_id :: nat

definition new_manager :: manager where
  "new_manager = \<lparr>sessions = Map.empty, tunnels = {}, next_id = 0\<rparr>"

text \<open>
  Modelled from the spec: \<open>create(target)\<close> "allocates a fresh unique identity, registers a
  Requested-state entry in the session table, asynchronously starts the underlying
  tunnel" and returns the Requested snapshot; it "fails with InvalidTarget if the target
  descriptor is malformed (missing pod/container/port) before any resource is allocated".
  \<open>now\<close> is the time of the call.
\<close>

definition create :: "nat \<Rightarrow> target \<Rightarrow> manager \<Rightarrow> (sm_error + session) \<times> manager" where
  "create now t m =
     (if malformed t then (Inl InvalidTarget, m)
      else (let sid = next_id m;
                s = \<lparr>sess_id = sid, sess_target = t, sess_status = Requested,
                     sess_created = now\<rparr>
            in (Inr s, m\<lparr>sessions := (sessions m)(sid \<mapsto> s),
                          tunnels := insert sid (tunnels m),
                          next_id := Suc sid\<rparr>)))"

text \<open>Modelled from the spec: \<open>get(id)\<close> "returns current snapshot; absent if id unknown".\<close>

definition get :: "nat \<Rightarrow> manager \<Rightarrow> session option" where
  "get sid m = sessions m sid"

text \<open>
  Modelled from the spec: \<open>delete(id)\<close> "signals cancellation to the underlying stream,
  waits for it to release its resources, removes the table entry, and returns success;
  fails with NotFound if the id is absent (no resource is touched)".
\<close>

definition delete :: "nat \<Rightarrow> manager \<Rightarrow> (sm_error + unit) \<times> manager" where
  "delete sid m =
     (case sessions m sid of
        None \<Rightarrow> (Inl NotFound, m)
      | Some s \<Rightarrow> (Inr (), m\<lparr>tunnels := tunnels m - {sid},
                              sessions := (sessions m)(sid := None)\<rparr>))"

text \<open>
  Modelled from the spec: the background observation of a session. A Requested session
  whose stream is confirmed live becomes Running; a session whose stream terminates
  without a delete becomes Failed and its tunnel's resources are released. The entry
  stays in the table, where the failure "is visible via its status field".
\<close>

definition established :: "nat \<Rightarrow> manager \<Rightarrow> manager" where
  "established sid m =
     (case sessions m sid of
        None \<Rightarrow> m
      | Some s \<Rightarrow>
          (if sess_status s = Requested \<and> sid \<in> tunnels m
           then m\<lparr>sessions := (sessions m)(sid \<mapsto> s\<lparr>sess_status := Running\<rparr>)\<rparr>
           else m))"

definition terminated :: "nat \<Rightarrow> manager \<Rightarrow> manager" where
  "terminated sid m =
     (case sessions m sid of
        None \<Rightarrow> m
      | Some s \<Rightarrow>
          (if (sess_status s = Requested \<or> sess_status s = Running) \<and> sid \<in> tunnels m
           then m\<lparr>sessions := (sessions m)(sid \<mapsto> s\<lparr>sess_status := Failed\<rparr>),
                   tunnels := tunnels m - {sid}\<rparr>
           else m))"

text \<open>
  A history of the manager: the operations applied since the process started, with the
  reply each one got. An identity was never created when no create of the history
  returned it, and has been removed when a delete of it succeeded.
\<close>

datatype sm_op = Create nat target | Get nat | Delete nat | Established nat | Terminated nat

datatype sm_reply =
    Created session | Rejected sm_error | Got "session option" | Removed | NoReply

fun step :: "sm_op \<Rightarrow> manager \<Rightarrow> sm_reply \<times> manager" where
  "step (Create now t) m =
     (case create now t m of (Inl e, m') \<Rightarrow> (Rejected e, m') | (Inr s, m') \<Rightarrow> (Created s, m'))"
| "step (Get sid) m = (Got (get sid m), m)"
| "step (Delete sid) m =
     (case delete sid m of (Inl e, m') \<Rightarrow> (Rejected e, m') | (Inr u, m') \<Rightarrow> (Removed, m'))"
| "step (Established sid) m = (NoReply, established sid m)"
| "step (Terminated sid) m = (NoReply, terminated sid m)"

fun run :: "sm_op list \<Rightarrow> manager \<Rightarrow> sm_reply list \<times> manager" where
  "run [] m = ([], m)"
| "run (op # ops) m =
     (let (r, m') = step op m; (rs, m'') = run ops m' in (r # rs, m''))"

fun created_ids :: "sm_reply list \<Rightarrow> nat list" where
  "created_ids [] = []"
| "created_ids (Created s # rs) = sess_id s # created_ids rs"
| "created_ids (r # rs) = created_ids rs"

definition never_created :: "nat \<Rightarrow> sm_reply list \<Rightarrow> bool" where
  "never_created sid replies = (sid \<notin> set (created_ids replies))"

definition removed :: "nat \<Rightarrow> sm_op list \<Rightarrow> sm_reply list \<Rightarrow> bool" where
  "removed sid ops replies = ((Delete sid, Removed) \<in> set (zip ops replies))"

section \<open>Responses of the port-forward handlers\<close>

text \<open>
  What a handler writes to the \<open>http.ResponseWriter\<close> depends on \<open>createPortforward\<close>,
  \<open>deletePortForward\<close>, \<open>handlePortforwardError\<close> and \<open>api.RespondWithError\<close>, which are
  defined elsewhere in the repository, in files that are not at hand. The definitions of
  this section follow the spec's section 6: the operations of the Session Manager are
  invoked "each returning a structured success payload or a structured error payload;
  the HTTP status-code mapping is a thin adapter outside this core".
\<close>

text \<open>
  A response is a structured success payload (the reply of the Session Manager), a
  structured error payload (a status and a message), or the plain-text body that
  \<open>http.Error\<close> of Go's standard library writes.
\<close>

datatype payload =
    SuccessPayload sm_reply
  | ErrorPayload nat string
  | PlainText nat string

fun is_structured :: "payload \<Rightarrow> bool" where
  "is_structured (SuccessPayload reply) = True"
| "is_structured (ErrorPayload code msg) = True"
| "is_structured (PlainText code msg) = False"

text \<open>
  The world of the handlers: what has been written to the response writer, what has
  been logged, the state of the port-forward service, and whether the request body has
  been closed.
\<close>

record world =
  written :: "payload list"
  logged :: "string list"
  service :: manager
  body_closed :: bool

text \<open>
  What the spec leaves outside the core is a parameter: the decoding of a request body
  into a target descriptor and of the route's id into a session identity (\<open>None\<close> when
  it does not decode), the time of the call, the status code given to an error, and the
  handler for container logs.
\<close>

record adapter =
  decode_target :: "string \<Rightarrow> target option"
  decode_id :: "string \<Rightarrow> nat option"
  clock_now :: nat
  status_of :: "error \<Rightarrow> nat"
  logs_handler :: "ClientInterface option \<Rightarrow> Request \<Rightarrow> world \<Rightarrow> world"

fun sm_error_message :: "sm_error \<Rightarrow> error" where
  "sm_error_message NotFound = ''not found''"
| "sm_error_message InvalidTarget = ''invalid target''"

text \<open>
  Modelled from the spec: \<open>createPortforward\<close>, the create verb. It invokes \<open>create\<close> of
  the Session Manager on the target of the body and writes the structured success
  payload, or returns the error; a body that gives no target descriptor is an invalid
  target.
\<close>

definition spec_createPortforward ::
  "adapter \<Rightarrow> context_t \<Rightarrow> string \<Rightarrow> PortForwarder \<Rightarrow> world \<Rightarrow> error option \<times> world" where
  "spec_createPortforward A ctx body svc w =
     (case decode_target A body of
        None \<Rightarrow> (Some (sm_error_message InvalidTarget), w)
      | Some t \<Rightarrow>
          (case create (clock_now A) t (service w) of
             (Inl e, m) \<Rightarrow> (Some (sm_error_message e), w\<lparr>service := m\<rparr>)
           | (Inr s, m) \<Rightarrow>
               (None, w\<lparr>service := m, written := written w @ [SuccessPayload (Created s)]\<rparr>)))"

text \<open>
  Modelled from the spec: \<open>deletePortForward\<close>, the delete verb. It invokes \<open>delete\<close> of
  the Session Manager on the identity of the route's id and writes the structured
  success payload, or returns the error; an id that names no identity is not found.
\<close>

definition spec_deletePortForward ::
  "adapter \<Rightarrow> context_t \<Rightarrow> string \<Rightarrow> PortForwarder \<Rightarrow> world \<Rightarrow> error option \<times> world" where
  "spec_deletePortForward A ctx ident svc w =
     (case decode_id A ident of
        None \<Rightarrow> (Some (sm_error_message NotFound), w)
      | Some sid \<Rightarrow>
          (case delete sid (service w) of
             (Inl e, m) \<Rightarrow> (Some (sm_error_message e), w\<lparr>service := m\<rparr>)
           | (Inr u, m) \<Rightarrow>
               (None, w\<lparr>service := m, written := written w @ [SuccessPayload Removed]\<rparr>)))"

text \<open>
  Modelled from the spec: \<open>handlePortforwardError\<close>. A nil error writes nothing; any
  other error is written as the structured error payload, with the status the adapter
  maps it to.
\<close>

definition spec_handlePortforwardError ::
  "adapter \<Rightarrow> error option \<Rightarrow> logger \<Rightarrow> world \<Rightarrow> world" where
  "spec_handlePortforwardError A err lg w =
     (case err of
        None \<Rightarrow> w
      | Some e \<Rightarrow> w\<lparr>written := written w @ [ErrorPayload (status_of A e) e]\<rparr>)"

text \<open>
  Modelled from the spec: \<open>api.RespondWithError\<close>; it answers with the structured error
  payload of the status and message it is given.
\<close>

definition spec_RespondWithError :: "nat \<Rightarrow> string \<Rightarrow> logger \<Rightarrow> world \<Rightarrow> world" where
  "spec_RespondWithError code msg lg w = w\<lparr>written := written w @ [ErrorPayload code msg]\<rparr>"

text \<open>
  \<open>http.Error\<close> of Go's standard library replies with the status code and the message as
  a plain-text body.
\<close>

definition go_http_Error :: "string \<Rightarrow> nat \<Rightarrow> world \<Rightarrow> world" where
  "go_http_Error msg code w = w\<lparr>written := written w @ [PlainText code msg]\<rparr>"

definition spec_deps :: "adapter \<Rightarrow> world handlerDeps" where
  "spec_deps A =
     \<lparr>Errorf = (\<lambda>lg msg w. w\<lparr>logged := logged w @ [msg]\<rparr>),
      http_Error = go_http_Error,
      RespondWithError = spec_RespondWithError,
      createPortforward = spec_createPortforward A,
      deletePortForward = spec_deletePortForward A,
      handlePortforwardError = spec_handlePortforwardError A,
      Body_Close = (\<lambda>w. w\<lparr>body_closed := True\<rparr>),
      containerLogsHandler = logs_handler A\<rparr>"

section \<open>Example values\<close>

text \<open>Concrete inputs at which the theorems below are evaluated.\<close>

definition widgets :: Unstructured where
  "widgets = \<lparr>GetName = ''widgets''\<rparr>"

definition crd_example :: "string \<Rightarrow> string \<times> string" where
  "crd_example name = (''/overview/crd/'' @ name, ''crd-describer'')"

definition rootPFs_example :: "string pathFilter list" where
  "rootPFs_example = [\<lparr>path = ''/'', describer = ''root'', dereg_key = ''/''\<rparr>,
                      \<lparr>path = ''/overview/pod'', describer = ''pods'', dereg_key = ''/overview/pod''\<rparr>]"

definition eventsPFs_example :: "string pathFilter list" where
  "eventsPFs_example = [\<lparr>path = ''/events'', describer = ''events'', dereg_key = ''/events''\<rparr>]"

definition client_example :: ClientInterface where
  "client_example = \<lparr>DiscoveryClient = Inr ''discovery'', RESTClient = Inr ''rest'',
                      RESTConfig = ''config''\<rparr>"

definition options_example :: Options where
  "options_example = \<lparr>Client = Some client_example, Cache = ''cache'', Namespace = ''default'',
                       Logger = ''logger'', PluginManager = Some ''plugins''\<rparr>"

definition newGenerator_example ::
  "cache \<Rightarrow> discovery \<Rightarrow> string pathMatcher \<Rightarrow> ClientInterface \<Rightarrow> PortForwarder \<Rightarrow> error + nat" where
  "newGenerator_example c di pm cl svc = Inr 0"

definition overview_example :: "nat ClusterOverview" where
  "overview_example =
     \<lparr>client = Some client_example, logger = ''logger'', cache = ''cache'', generator = 0,
      portForwardSvc = Some (PortForwardService
         \<lparr>so_RESTClient = ''rest'', so_Config = ''config'', so_Cache = ''cache''\<rparr> ''logger''),
      pluginManager = Some ''plugins''\<rparr>"

definition get_request_example :: Request where
  "get_request_example =
     \<lparr>Method = ''GET'', Body = [], Vars = [(''id'', ''pf-1'')], RequestContext = Background\<rparr>"

definition target_example :: target where
  "target_example = \<lparr>t_namespace = ''default'', t_pod = Some ''p1'', t_container = Some ''c1'',
                      t_port = Some 8080\<rparr>"

definition history_example :: "sm_op list" where
  "history_example = [Create 5 target_example, Established 0, Create 7 target_example, Delete 0]"

definition adapter_example :: adapter where
  "adapter_example =
     \<lparr>decode_target = (\<lambda>body. if body = ''p1'' then Some target_example else None),
      decode_id = (\<lambda>ident. if ident = ''0'' then Some 0 else None),
      clock_now = 5,
      status_of = (\<lambda>e. 400),
      logs_handler = (\<lambda>cl r w. w)\<rparr>"

definition world_example :: world where
  "world_example = \<lparr>written = [], logged = [], service = new_manager, body_closed = False\<rparr>"

definition post_request_example :: Request where
  "post_request_example =
     \<lparr>Method = ''POST'', Body = ''p1'', Vars = [], RequestContext = Background\<rparr>"

section \<open>Properties of the Kind Watcher handlers\<close>

text \<open>
  Claim C2. For a non-nil object the Added handler calls \<open>addCRD\<close> exactly once, with the
  object's name, and the Deleted handler calls \<open>deleteCRD\<close> exactly once, with the
  object's name; neither does anything else to the registry. For every registry operation \<open>add\<close> and
  \<open>del\<close> passed for \<open>addCRD\<close> and \<open>deleteCRD\<close>, the state a handler leaves is the one that single call leaves, and on the
  recording registry the handler appends exactly that one call.
\<close>

theorem handlers_call_registry_once:
  "crdAddFunc add (Some obj) s = Returned (add (GetName obj) s)
   \<and> crdDeleteFunc del (Some obj) s = Returned (del (GetName obj) s)
   \<and> crdAddFunc record_addCRD (Some obj) calls = Returned (calls @ [CallAddCRD (GetName obj)])
   \<and> crdDeleteFunc record_deleteCRD (Some obj) calls
       = Returned (calls @ [CallDeleteCRD (GetName obj)])"
  by (simp add: crdAddFunc_def crdDeleteFunc_def GetName_ptr_def
      record_addCRD_def record_deleteCRD_def)

text \<open>
  Claim C9. A nil object is a no-op for both handlers: each returns (it does not panic)
  and leaves the state as it was, without calling \<open>addCRD\<close> or \<open>deleteCRD\<close>.
\<close>

theorem handlers_nil_object_noop:
  "crdAddFunc add None s = Returned s
   \<and> crdDeleteFunc del None s = Returned s
   \<and> crdAddFunc record_addCRD None calls = Returned calls
   \<and> crdDeleteFunc record_deleteCRD None calls = Returned calls"
  by (simp add: crdAddFunc_def crdDeleteFunc_def)

section \<open>Properties of the Kind Watcher on the path matcher\<close>

lemma registrations_addCRD:
  "registrations n (addCRD crd n pm) =
     (if registered n pm then registrations n pm else [crdFilter crd n])"
  by (simp add: addCRD_def Register_def registrations_def registered_def crdFilter_def)

lemma registrations_deleteCRD: "registrations n (deleteCRD n pm) = []"
  by (simp add: deleteCRD_def Deregister_def registrations_def)

lemma kindWatcher_Nil: "kindWatcher crd [] pm = Returned pm"
  by (simp add: kindWatcher_def)

lemma kindWatcher_step:
  "kindWatcher crd [e] pm =
     Returned (case e of
                 Added None \<Rightarrow> pm
               | Added (Some u) \<Rightarrow> addCRD crd (GetName u) pm
               | Deleted None \<Rightarrow> pm
               | Deleted (Some u) \<Rightarrow> deleteCRD (GetName u) pm)"
  by (simp add: kindWatcher_def crdAddFunc_def crdDeleteFunc_def GetName_ptr_def
           split: WatchEvent.splits option.splits)

lemma kindWatcher_Cons:
  "kindWatcher crd (e # es) pm =
     (case kindWatcher crd [e] pm of
        Panicked m \<Rightarrow> Panicked m
      | Returned pm' \<Rightarrow> kindWatcher crd es pm')"
  by (cases e) (simp_all add: kindWatcher_def split: outcome.splits)

lemma kindWatcher_snoc:
  "kindWatcher crd (es @ [e]) pm =
     (case kindWatcher crd es pm of
        Panicked m \<Rightarrow> Panicked m
      | Returned pm' \<Rightarrow> kindWatcher crd [e] pm')"
proof (induction es arbitrary: pm)
  case Nil
  show ?case by (simp add: kindWatcher_Nil)
next
  case (Cons a es)
  show ?case
    by (simp add: kindWatcher_Cons [of crd a "es @ [e]"] kindWatcher_Cons [of crd a es]
          kindWatcher_step Cons.IH)
qed

lemma kindWatcher_one:
  assumes "event_for n e"
  shows "kindWatcher crd [e] pm =
           Returned (if is_Added e then addCRD crd n pm else deleteCRD n pm)"
  using assms by (cases e) (auto simp: kindWatcher_step split: option.splits)

text \<open>
  The state after the events of one name: induction on the sequence from its end, since
  the property is about the last event.
\<close>

lemma kindWatcher_single_name:
  assumes "\<forall>e\<in>set es. event_for n e"
  shows "\<exists>pm'. kindWatcher crd es pm = Returned pm'
           \<and> (registered n pm' \<longleftrightarrow> (if es = [] then registered n pm else last_is_Added es))
           \<and> length (registrations n pm') \<le> max 1 (length (registrations n pm))"
  using assms
proof (induction es rule: rev_induct)
  case Nil
  show ?case by (simp add: kindWatcher_Nil)
next
  case (snoc e es)
  from snoc obtain pm1 where
    run: "kindWatcher crd es pm = Returned pm1" and
    len: "length (registrations n pm1) \<le> max 1 (length (registrations n pm))"
    by auto
  from snoc.prems have e: "event_for n e" by simp
  let ?pm2 = "if is_Added e then addCRD crd n pm1 else deleteCRD n pm1"
  have step: "kindWatcher crd (es @ [e]) pm = Returned ?pm2"
    by (simp add: kindWatcher_snoc run kindWatcher_one [OF e])
  have reg: "registered n ?pm2 \<longleftrightarrow> is_Added e"
    by (simp add: registered_def registrations_addCRD registrations_deleteCRD)
  have len2: "length (registrations n ?pm2) \<le> max 1 (length (registrations n pm))"
    using len by (simp add: registrations_addCRD registrations_deleteCRD)
  show ?case
    using step reg len2 by (simp add: last_is_Added_def)
qed

text \<open>
  Claim C1. After any finite sequence of Added and Deleted events for one kind name
  \<open>n\<close> (objects not nil, all named \<open>n\<close>), processed in delivery order from a path matcher
  \<open>pm\<close>, the Kind Watcher returns, and the path matcher holds a registration for \<open>n\<close>
  exactly when the last event was Added. For the empty sequence this is read from a
  path matcher without a registration for \<open>n\<close>, as the constructor leaves it. The events
  never create a second registration: the number of registrations for \<open>n\<close> is at most
  one, unless \<open>pm\<close> itself held more, and then it is no larger than in \<open>pm\<close>.
\<close>

theorem kind_watcher_last_event_wins:
  assumes "\<forall>e\<in>set es. event_for n e" and "es \<noteq> [] \<or> \<not> registered n pm"
  shows "\<exists>pm'. kindWatcher crd es pm = Returned pm'
           \<and> (registered n pm' \<longleftrightarrow> last_is_Added es)
           \<and> length (registrations n pm') \<le> max 1 (length (registrations n pm))"
proof -
  from kindWatcher_single_name [OF assms(1), of crd pm] obtain pm' where
    "kindWatcher crd es pm = Returned pm'"
    "registered n pm' \<longleftrightarrow> (if es = [] then registered n pm else last_is_Added es)"
    "length (registrations n pm') \<le> max 1 (length (registrations n pm))"
    by blast
  moreover have "(if es = [] then registered n pm else last_is_Added es) \<longleftrightarrow> last_is_Added es"
    using assms(2) by (auto simp: last_is_Added_def)
  ultimately show ?thesis by simp
qed

theorem kind_watcher_last_event_wins_witness:
  "\<exists>pm'. kindWatcher crd_example
            [Added (Some widgets), Added (Some widgets), Deleted (Some widgets),
             Added (Some widgets), Added (Some widgets)] (rootPFs_example @ eventsPFs_example)
          = Returned pm'
        \<and> registered ''widgets'' pm'
        \<and> length (registrations ''widgets'' pm') \<le> 1"
  using kind_watcher_last_event_wins
    [of "[Added (Some widgets), Added (Some widgets), Deleted (Some widgets),
          Added (Some widgets), Added (Some widgets)]"
        "''widgets''" "rootPFs_example @ eventsPFs_example" crd_example]
  by (simp add: widgets_def last_is_Added_def registered_def registrations_def
        rootPFs_example_def eventsPFs_example_def)

section \<open>Properties of the constructor\<close>

lemma register_all_eq:
  "register_all pfs (tr, pm) = (tr @ map EffRegister pfs, pm @ pfs)"
  unfolding register_all_def
  by (induction pfs arbitrary: tr pm) (simp_all add: Register_def)

lemma NewClusterOverview_effects:
  "fst (NewClusterOverview rootPFs eventsPFs newGen options) =
     (case Client options of
        None \<Rightarrow> []
      | Some c \<Rightarrow>
          (case PluginManager options of
             None \<Rightarrow> []
           | Some plugins \<Rightarrow>
               (case DiscoveryClient c of
                  Inl err \<Rightarrow> []
                | Inr di \<Rightarrow>
                    map EffRegister (rootPFs @ eventsPFs)
                    @ EffGoWatchCRDs (Cache options) (rootPFs @ eventsPFs)
                    # (case RESTClient c of
                         Inl err \<Rightarrow> []
                       | Inr rc \<Rightarrow>
                           [EffPortforwardNew
                              \<lparr>so_RESTClient = rc, so_Config = RESTConfig c,
                               so_Cache = Cache options\<rparr> (Logger options)]))))"
  by (simp add: NewClusterOverview_def register_all_eq newPathMatcher_def Let_def
           split: option.splits sum.splits)

text \<open>
  The shape of the path matcher under the Kind Watcher: what is left of the static
  registrations, in their order, followed by registrations made by \<open>addCRD\<close>.
\<close>

lemma addCRD_shape:
  assumes "pm = filter keep statics @ dyn" and "set dyn \<subseteq> range (crdFilter crd)"
  shows "\<exists>keep' dyn'. addCRD crd n pm = filter keep' statics @ dyn'
           \<and> set dyn' \<subseteq> range (crdFilter crd)"
proof (cases "registered n pm")
  case True
  then show ?thesis using assms by (auto simp: addCRD_def)
next
  case False
  then have "addCRD crd n pm = filter keep statics @ (dyn @ [crdFilter crd n])"
    using assms(1) by (simp add: addCRD_def Register_def)
  moreover have "set (dyn @ [crdFilter crd n]) \<subseteq> range (crdFilter crd)"
    using assms(2) by auto
  ultimately show ?thesis by blast
qed

lemma deleteCRD_shape:
  assumes "pm = filter keep statics @ dyn" and "set dyn \<subseteq> range (crdFilter crd)"
  shows "\<exists>keep' dyn'. deleteCRD n pm = filter keep' statics @ dyn'
           \<and> set dyn' \<subseteq> range (crdFilter crd)"
proof -
  have "deleteCRD n pm =
          filter (\<lambda>pf. keep pf \<and> dereg_key pf \<noteq> n) statics
          @ filter (\<lambda>pf. dereg_key pf \<noteq> n) dyn"
    using assms(1) by (simp add: deleteCRD_def Deregister_def conj_commute)
  moreover have "set (filter (\<lambda>pf. dereg_key pf \<noteq> n) dyn) \<subseteq> range (crdFilter crd)"
    using assms(2) by auto
  ultimately show ?thesis by blast
qed

lemma kindWatcher_shape:
  assumes "pm = filter keep statics @ dyn" and "set dyn \<subseteq> range (crdFilter crd)"
  shows "\<exists>pm' keep' dyn'. kindWatcher crd es pm = Returned pm'
           \<and> pm' = filter keep' statics @ dyn' \<and> set dyn' \<subseteq> range (crdFilter crd)"
  using assms
proof (induction es arbitrary: pm keep dyn)
  case Nil
  then show ?case by (auto simp: kindWatcher_def)
next
  case (Cons e es)
  obtain pm1 where one: "kindWatcher crd [e] pm = Returned pm1"
    by (simp add: kindWatcher_step)
  have "\<exists>keep1 dyn1. pm1 = filter keep1 statics @ dyn1 \<and> set dyn1 \<subseteq> range (crdFilter crd)"
  proof (cases e)
    case (Added object)
    then show ?thesis
      using one addCRD_shape [OF Cons.prems] Cons.prems
      by (cases object) (auto simp: kindWatcher_step)
  next
    case (Deleted object)
    then show ?thesis
      using one deleteCRD_shape [OF Cons.prems] Cons.prems
      by (cases object) (auto simp: kindWatcher_step)
  qed
  then obtain keep1 dyn1 where
    "pm1 = filter keep1 statics @ dyn1" "set dyn1 \<subseteq> range (crdFilter crd)"
    by blast
  from Cons.IH [OF this] show ?case
    by (simp add: kindWatcher_Cons [of crd e es] one)
qed

text \<open>
  Claim C3. Whenever the constructor reaches \<open>go watchCRDs(...)\<close>, its effects up to
  that statement are exactly the registrations of the root describer's and then the
  events describer's path filters, no registration by the constructor follows, and the
  path matcher the watcher starts from holds exactly these static registrations in
  that order. Whatever events the Kind Watcher then processes, the path matcher is what
  remains of the static registrations, in their order, followed by the registrations
  made by \<open>addCRD\<close>: every static registration precedes every dynamic one.
\<close>

theorem static_registrations_precede_watcher:
  assumes "EffGoWatchCRDs c pm \<in> set (fst (NewClusterOverview rootPFs eventsPFs newGen options))"
  shows "\<exists>post. fst (NewClusterOverview rootPFs eventsPFs newGen options)
                  = map EffRegister (rootPFs @ eventsPFs) @ EffGoWatchCRDs c pm # post
           \<and> (\<forall>e\<in>set post. \<not> is_EffRegister e)
           \<and> pm = rootPFs @ eventsPFs
           \<and> (\<forall>crd es. \<exists>pm' keep dyn. kindWatcher crd es pm = Returned pm'
                  \<and> pm' = filter keep (rootPFs @ eventsPFs) @ dyn
                  \<and> set dyn \<subseteq> range (crdFilter crd))"
proof -
  let ?tr = "fst (NewClusterOverview rootPFs eventsPFs newGen options)"
  let ?st = "rootPFs @ eventsPFs"
  have "\<exists>cl pl di. Client options = Some cl \<and> PluginManager options = Some pl
          \<and> DiscoveryClient cl = Inr di"
    using assms unfolding NewClusterOverview_effects
    by (cases "Client options"; cases "PluginManager options";
        cases "DiscoveryClient (the (Client options))") simp_all
  then obtain cl pl di where
    opts: "Client options = Some cl" "PluginManager options = Some pl"
      "DiscoveryClient cl = Inr di"
    by blast
  define post where
    "post = (case RESTClient cl of
               Inl err \<Rightarrow> []
             | Inr rc \<Rightarrow>
                 [EffPortforwardNew \<lparr>so_RESTClient = rc, so_Config = RESTConfig cl,
                    so_Cache = Cache options\<rparr> (Logger options) :: 'a effect])"
  have tr0: "?tr = map EffRegister ?st @ EffGoWatchCRDs (Cache options) ?st # post"
    by (simp add: NewClusterOverview_effects opts post_def)
  have post: "\<forall>e\<in>set post. \<not> is_EffRegister e"
    by (cases "RESTClient cl") (simp_all add: post_def)
  have "EffGoWatchCRDs c pm
          \<in> set (map EffRegister ?st) \<union> {EffGoWatchCRDs (Cache options) ?st} \<union> set post"
    using assms unfolding tr0 by simp
  moreover have "\<forall>e\<in>set post. \<not> is_EffGoWatchCRDs e"
    by (cases "RESTClient cl") (simp_all add: post_def)
  ultimately have "c = Cache options \<and> pm = ?st"
    by auto
  then have pm: "pm = ?st" and tr: "?tr = map EffRegister ?st @ EffGoWatchCRDs c pm # post"
    using tr0 by simp_all
  have "\<exists>pm' keep dyn. kindWatcher crd es pm = Returned pm'
          \<and> pm' = filter keep ?st @ dyn \<and> set dyn \<subseteq> range (crdFilter crd)"
    for crd :: "string \<Rightarrow> string \<times> 'a" and es
    using kindWatcher_shape [of pm "\<lambda>_. True" ?st "[]" crd es] pm by simp
  with tr post pm show ?thesis by blast
qed

theorem static_registrations_precede_watcher_witness:
  "\<exists>post. fst (NewClusterOverview rootPFs_example eventsPFs_example newGenerator_example
                 options_example)
            = map EffRegister (rootPFs_example @ eventsPFs_example)
              @ EffGoWatchCRDs ''cache'' (rootPFs_example @ eventsPFs_example) # post"
  using static_registrations_precede_watcher
    [of "''cache''" "rootPFs_example @ eventsPFs_example" rootPFs_example eventsPFs_example
        newGenerator_example options_example]
  by (simp add: NewClusterOverview_effects options_example_def client_example_def)

text \<open>
  Claim C8. When \<open>Client\<close> or \<open>PluginManager\<close> of the options is nil, the constructor
  returns an error and no overview, and has no effect: it registers nothing, does not
  start the CRD watcher and does not create the port-forward service.
\<close>

theorem constructor_rejects_nil_dependencies:
  assumes "Client options = None \<or> PluginManager options = None"
  shows "\<exists>err. NewClusterOverview rootPFs eventsPFs newGen options = ([], Inl err)
           \<and> (err = ''nil cluster client'' \<or> err = ''plugin manager is nil'')"
  using assms by (auto simp: NewClusterOverview_def split: option.splits)

theorem constructor_rejects_nil_dependencies_witness:
  "NewClusterOverview rootPFs_example eventsPFs_example newGenerator_example
     (options_example\<lparr>PluginManager := None\<rparr>) = ([], Inl ''plugin manager is nil'')
   \<and> NewClusterOverview rootPFs_example eventsPFs_example newGenerator_example
     (options_example\<lparr>Client := None\<rparr>) = ([], Inl ''nil cluster client'')"
  using constructor_rejects_nil_dependencies
    [of "options_example\<lparr>PluginManager := None\<rparr>" rootPFs_example eventsPFs_example
        newGenerator_example]
    constructor_rejects_nil_dependencies
    [of "options_example\<lparr>Client := None\<rparr>" rootPFs_example eventsPFs_example
        newGenerator_example]
  by (simp add: NewClusterOverview_def options_example_def)

section \<open>Properties of Content\<close>

text \<open>
  Claim C7. \<open>Content\<close> is one call of the generator's \<open>Generate\<close>: its result and its
  effect on the world are those of \<open>Generate\<close> applied to the request's content path,
  prefix and namespace as given and to generator options carrying the request's
  selector. On the recording generator, exactly one call is made, with these four
  values unchanged.
\<close>

theorem Content_delegates_to_generator:
  "Content Generate co ctx contentPath prefix namespace opts w =
     Generate (generator co) (WithLoggerContext ctx (logger co)) contentPath prefix namespace
       \<lparr>go_Selector = Selector opts, go_PortForwardSvc = portForwardSvc co,
        go_PluginManager = pluginManager co\<rparr> w
   \<and> Content record_Generate co ctx contentPath prefix namespace opts calls =
       ((), calls @ [CallGenerate contentPath prefix namespace (Selector opts)])"
  by (simp add: Content_def record_Generate_def)

section \<open>Properties of the HTTP handlers\<close>

lemma create_response:
  "\<exists>p. written (spec_handlePortforwardError A (fst (spec_createPortforward A ctx body svc w)) lg
                  (snd (spec_createPortforward A ctx body svc w))) = written w @ [p]
       \<and> is_structured p"
  by (auto simp: spec_createPortforward_def spec_handlePortforwardError_def
           split: option.splits prod.splits sum.splits)

lemma delete_response:
  "\<exists>p. written (spec_handlePortforwardError A (fst (spec_deletePortForward A ctx ident svc w)) lg
                  (snd (spec_deletePortForward A ctx ident svc w))) = written w @ [p]
       \<and> is_structured p"
  by (auto simp: spec_deletePortForward_def spec_handlePortforwardError_def
           split: option.splits prod.splits sum.splits)

lemma portForwardsHandler_response:
  assumes "portForwardSvc co = Some svc"
  shows "\<exists>p. written (portForwardsHandler (spec_deps A) co r w) = written w @ [p]
           \<and> (if Method r = ''POST'' then is_structured p
               else p = ErrorPayload 404 (''unhandled HTTP method '' @ Method r))"
proof (cases "Method r = ''POST''")
  case True
  then show ?thesis
    using assms
      create_response [of A "WithLoggerContext (RequestContext r) (logger co)" "Body r" svc w
        "logger co"]
    by (simp add: portForwardsHandler_def spec_deps_def MethodPost_def split_beta Let_def)
next
  case False
  then show ?thesis
    using assms
    by (simp add: portForwardsHandler_def spec_deps_def MethodPost_def StatusNotFound_def
          spec_RespondWithError_def)
qed

lemma portForwardHandler_response:
  assumes "portForwardSvc co = Some svc"
  shows "\<exists>p. written (portForwardHandler (spec_deps A) co r w) = written w @ [p]
           \<and> (if Method r = ''DELETE'' then is_structured p
               else p = ErrorPayload 404 (''unhandled HTTP method '' @ Method r))"
proof (cases "Method r = ''DELETE''")
  case True
  then show ?thesis
    using assms
      delete_response [of A "WithLoggerContext (RequestContext r) (logger co)"
        "vars_get r ''id''" svc w "logger co"]
    by (simp add: portForwardHandler_def spec_deps_def MethodDelete_def split_beta Let_def)
next
  case False
  then show ?thesis
    using assms
    by (simp add: portForwardHandler_def spec_deps_def MethodDelete_def StatusNotFound_def
          spec_RespondWithError_def)
qed

lemma handlers_dispatch:
  assumes "portForwardSvc co = Some svc"
  shows "portForwardsHandler (recording_deps cerr derr) co r [] =
           (if Method r = ''POST''
            then [CallCreatePortforward (WithLoggerContext (RequestContext r) (logger co))
                    (Body r) svc,
                  CallHandlePortforwardError cerr (logger co)]
            else [CallRespondWithError 404 (''unhandled HTTP method '' @ Method r) (logger co)])
           @ [CallBodyClose]"
    and "portForwardHandler (recording_deps cerr derr) co r [] =
           (if Method r = ''DELETE''
            then [CallDeletePortForward (WithLoggerContext (RequestContext r) (logger co))
                    (vars_get r ''id'') svc,
                  CallHandlePortforwardError derr (logger co)]
            else [CallRespondWithError 404 (''unhandled HTTP method '' @ Method r) (logger co)])"
  using assms
  by (simp_all add: portForwardHandler_def portForwardsHandler_def recording_deps_def
        MethodDelete_def MethodPost_def StatusNotFound_def)

text \<open>
  Claim C4, as stated, fails in two ways. The handlers serve no read of a session by
  id: a GET request on either port-forward route reaches no operation of the Session
  Manager and is answered with the error for an unhandled method. And on an overview
  whose port-forward service is nil, a create request is answered by \<open>http.Error\<close> with
  a plain-text body, which is neither structured payload.
\<close>

theorem session_read_verb_unhandled:
  "portForwardHandler (recording_deps None None) overview_example get_request_example []
     = [CallRespondWithError 404 ''unhandled HTTP method GET'' ''logger'']
   \<and> portForwardsHandler (recording_deps None None) overview_example get_request_example []
     = [CallRespondWithError 404 ''unhandled HTTP method GET'' ''logger'', CallBodyClose]
   \<and> written (portForwardsHandler (spec_deps adapter_example)
                (overview_example\<lparr>portForwardSvc := None\<rparr>) post_request_example world_example)
     = [PlainText 500 ''portforward service is nil'']"
  by (simp add: portForwardHandler_def portForwardsHandler_def recording_deps_def
        overview_example_def get_request_example_def MethodDelete_def MethodPost_def
        StatusNotFound_def StatusInternalServerError_def spec_deps_def go_http_Error_def
        world_example_def)

text \<open>
  Claim C4, amended. On an overview whose port-forward service is not nil, the two
  port-forward routes of \<open>Handlers\<close> serve exactly two verbs of the Session Manager:
  on \<open>/port-forwards\<close> a POST calls \<open>createPortforward\<close> once, with the request's body,
  and on \<open>/port-forwards/{id}\<close> a DELETE calls \<open>deletePortForward\<close> once, with the
  route's id; no other method reaches an operation of the Session Manager. Each of the
  two verbs writes exactly one response, a structured success payload or a structured
  error payload, and every other method, GET included, is answered with the structured
  error payload of status 404 and the message \<open>unhandled HTTP method\<close> followed by the
  method.
\<close>

theorem session_http_verbs:
  assumes "portForwardSvc co = Some svc"
  shows "map fst (Handlers D co) =
           [''/logs/pod/{pod}/container/{container}'', ''/port-forwards'', ''/port-forwards/{id}'']
       \<and> map_of (Handlers D co) ''/port-forwards'' = Some (portForwardsHandler D co)
       \<and> map_of (Handlers D co) ''/port-forwards/{id}'' = Some (portForwardHandler D co)
       \<and> portForwardsHandler (recording_deps cerr derr) co r [] =
           (if Method r = ''POST''
            then [CallCreatePortforward (WithLoggerContext (RequestContext r) (logger co))
                    (Body r) svc,
                  CallHandlePortforwardError cerr (logger co)]
            else [CallRespondWithError 404 (''unhandled HTTP method '' @ Method r) (logger co)])
           @ [CallBodyClose]
       \<and> portForwardHandler (recording_deps cerr derr) co r [] =
           (if Method r = ''DELETE''
            then [CallDeletePortForward (WithLoggerContext (RequestContext r) (logger co))
                    (vars_get r ''id'') svc,
                  CallHandlePortforwardError derr (logger co)]
            else [CallRespondWithError 404 (''unhandled HTTP method '' @ Method r) (logger co)])
       \<and> (\<exists>p. written (portForwardsHandler (spec_deps A) co r w) = written w @ [p]
              \<and> (if Method r = ''POST'' then is_structured p
                  else p = ErrorPayload 404 (''unhandled HTTP method '' @ Method r)))
       \<and> (\<exists>p. written (portForwardHandler (spec_deps A) co r w) = written w @ [p]
              \<and> (if Method r = ''DELETE'' then is_structured p
                  else p = ErrorPayload 404 (''unhandled HTTP method '' @ Method r)))"
proof -
  have routes: "map fst (Handlers D co) =
           [''/logs/pod/{pod}/container/{container}'', ''/port-forwards'', ''/port-forwards/{id}'']"
    "map_of (Handlers D co) ''/port-forwards'' = Some (portForwardsHandler D co)"
    "map_of (Handlers D co) ''/port-forwards/{id}'' = Some (portForwardHandler D co)"
    by (simp_all add: Handlers_def)
  show ?thesis
    using routes handlers_dispatch [OF assms, of cerr derr r]
      portForwardsHandler_response [OF assms, of A r w]
      portForwardHandler_response [OF assms, of A r w]
    by blast
qed

theorem session_http_verbs_witness:
  "(\<exists>p. written (portForwardsHandler (spec_deps adapter_example) overview_example
                   post_request_example world_example) = [p] \<and> is_structured p)
   \<and> (\<exists>p. written (portForwardHandler (spec_deps adapter_example) overview_example
                   get_request_example world_example) = [p]
          \<and> p = ErrorPayload 404 ''unhandled HTTP method GET'')"
  using session_http_verbs
      [of overview_example
          "PortForwardService \<lparr>so_RESTClient = ''rest'', so_Config = ''config'',
             so_Cache = ''cache''\<rparr> ''logger''"
          "spec_deps adapter_example" None None post_request_example adapter_example
          world_example]
    session_http_verbs
      [of overview_example
          "PortForwardService \<lparr>so_RESTClient = ''rest'', so_Config = ''config'',
             so_Cache = ''cache''\<rparr> ''logger''"
          "spec_deps adapter_example" None None get_request_example adapter_example
          world_example]
  by (simp add: overview_example_def post_request_example_def get_request_example_def
        world_example_def)

section \<open>Properties of FSLoader.Load\<close>

text \<open>
  Claim C10 does not hold of the code. When \<open>NewClientConfigFromBytes\<close> fails, it returns
  a nil \<open>ClientConfig\<close> with its error; \<open>Load\<close> drops the error and calls \<open>RawConfig\<close> on
  the nil interface, so it neither returns a \<open>KubeConfig\<close> nor returns an error: it
  panics.
\<close>

theorem Load_panics_on_construction_failure:
  assumes "NewClientConfigFromBytes content = (None, err)"
  shows "Load NewClientConfigFromBytes content = Panicked nil_deref"
  using assms by (simp add: Load_def)

theorem Load_panics_on_construction_failure_witness:
  "Load parse_example ''{'' = Panicked nil_deref"
  using Load_panics_on_construction_failure
    [of parse_example "''{''" "Some ''error decoding the kube config''"]
  by (simp add: parse_example_def)

section \<open>Properties of the Session Manager\<close>

lemma run_length: "run ops m = (rs, m') \<Longrightarrow> length rs = length ops"
  by (induction ops arbitrary: m rs m') (auto split: prod.splits)

lemma run_snoc:
  "run (ops @ [op]) m =
     (let (rs, m') = run ops m; (r, m'') = step op m' in (rs @ [r], m''))"
  by (induction ops arbitrary: m) (auto split: prod.splits)

lemma created_ids_append: "created_ids (rs @ rs') = created_ids rs @ created_ids rs'"
  by (induction rs rule: created_ids.induct) simp_all

text \<open>One operation: which identities it creates and which entries it adds and removes.\<close>

lemma step_sessions:
  assumes "step op m = (r, m')"
  shows "next_id m' = next_id m + length (created_ids [r])
       \<and> set (created_ids [r]) = {next_id m ..< next_id m'}
       \<and> dom (sessions m') = (dom (sessions m) \<union> {next_id m ..< next_id m'})
                               - {sid. op = Delete sid \<and> r = Removed}
       \<and> {sid. op = Delete sid \<and> r = Removed} \<subseteq> dom (sessions m)"
proof (cases op)
  case (Create now t)
  then show ?thesis using assms
    by (auto simp: create_def Let_def split: if_splits)
next
  case (Get sid)
  then show ?thesis using assms by auto
next
  case (Delete sid)
  then show ?thesis using assms
    by (auto simp: delete_def split: option.splits if_splits)
next
  case (Established sid)
  then show ?thesis using assms
    by (auto simp: established_def split: option.splits if_splits)
next
  case (Terminated sid)
  then show ?thesis using assms
    by (auto simp: terminated_def split: option.splits if_splits)
qed

text \<open>
  The invariant of a history: the identities created are those below the counter, and
  the table holds exactly the ones created and not removed.
\<close>

lemma run_sessions:
  assumes "run ops new_manager = (rs, m)"
  shows "set (created_ids rs) = {..< next_id m}
       \<and> dom (sessions m) = {..< next_id m} - {sid. removed sid ops rs}
       \<and> {sid. removed sid ops rs} \<subseteq> {..< next_id m}"
  using assms
proof (induction ops arbitrary: rs m rule: rev_induct)
  case Nil
  then show ?case by (auto simp: new_manager_def removed_def)
next
  case (snoc op ops)
  obtain rs0 m0 where run0: "run ops new_manager = (rs0, m0)"
    by (cases "run ops new_manager")
  obtain r where st: "step op m0 = (r, m)" and rs: "rs = rs0 @ [r]"
    using snoc.prems run0 by (auto simp: run_snoc split: prod.splits)
  have len: "length rs0 = length ops"
    using run0 by (rule run_length)
  note ih = snoc.IH [OF run0]
  note step = step_sessions [OF st]
  have le: "next_id m0 \<le> next_id m"
    using step by simp
  have c: "set (created_ids rs) = {..< next_id m}"
    using ih step le by (auto simp: rs created_ids_append)
  have rem: "{sid. removed sid (ops @ [op]) rs}
               = {sid. removed sid ops rs0} \<union> {sid. op = Delete sid \<and> r = Removed}"
    using len by (auto simp: removed_def rs)
  have fresh: "{sid. removed sid ops rs0} \<subseteq> {..< next_id m0}"
    using ih by simp
  have d: "dom (sessions m) = {..< next_id m} - {sid. removed sid (ops @ [op]) rs}"
    using ih step le fresh unfolding rem by auto
  have f: "{sid. removed sid (ops @ [op]) rs} \<subseteq> {..< next_id m}"
    using ih step le unfolding rem by auto
  from c d f show ?case by simp
qed

text \<open>
  Claim C5. In the state \<open>m\<close> that any history of operations reaches from the start of
  the process, \<open>delete\<close> of an identity that no create of the history returned, or that
  a delete of the history removed, returns \<open>NotFound\<close> and leaves the manager as it was:
  the table entry of every other session, the tunnels and their resources are unchanged.
\<close>

theorem delete_absent_NotFound:
  assumes "run ops new_manager = (replies, m)"
    and "never_created sid replies \<or> removed sid ops replies"
  shows "delete sid m = (Inl NotFound, m)"
proof -
  from run_sessions [OF assms(1)] have
    "set (created_ids replies) = {..< next_id m}"
    "dom (sessions m) = {..< next_id m} - {sid. removed sid ops replies}"
    by simp_all
  with assms(2) have "sid \<notin> dom (sessions m)"
    by (auto simp: never_created_def)
  then have "sessions m sid = None" by auto
  then show ?thesis by (simp add: delete_def)
qed

theorem delete_absent_NotFound_witness:
  "delete 0 (snd (run history_example new_manager))
     = (Inl NotFound, snd (run history_example new_manager))
   \<and> delete 7 (snd (run history_example new_manager))
     = (Inl NotFound, snd (run history_example new_manager))"
  using delete_absent_NotFound
      [of history_example "fst (run history_example new_manager)"
          "snd (run history_example new_manager)" 0]
    delete_absent_NotFound
      [of history_example "fst (run history_example new_manager)"
          "snd (run history_example new_manager)" 7]
  by (simp add: history_example_def target_example_def new_manager_def create_def delete_def
        established_def malformed_def never_created_def removed_def Let_def)

text \<open>
  Claim C6. \<open>create\<close> of a malformed target descriptor (pod, container or port missing)
  returns \<open>InvalidTarget\<close> at once and leaves the manager as it was: no table entry, no
  tunnel and no identity is allocated.
\<close>

theorem create_malformed_InvalidTarget:
  assumes "malformed t"
  shows "create now t m = (Inl InvalidTarget, m)"
  using assms by (simp add: create_def)

theorem create_malformed_InvalidTarget_witness:
  "create 9 (target_example\<lparr>t_port := None\<rparr>) new_manager = (Inl InvalidTarget, new_manager)"
  using create_malformed_InvalidTarget [of "target_example\<lparr>t_port := None\<rparr>" 9 new_manager]
  by (simp add: malformed_def target_example_def)

end
